theory Spec2Isabelle
  imports Main "HOL-Library.AList"
begin

section \<open>Values exchanged on the two connections\<close>

text \<open>
  Both servers decode every message they receive with \<^verbatim>\<open>json.loads\<close> and read
  fields of the result with \<^verbatim>\<open>d[k]\<close> and \<^verbatim>\<open>d.get(k, default)\<close>. A decoded
  message is a value of the type \<open>json\<close>: \<open>JNull\<close> is Python's \<^verbatim>\<open>None\<close>, a
  \<open>JObj\<close> is a \<^verbatim>\<open>dict\<close> given by its items in insertion order (the first binding of a
  key is the one a lookup finds), and a \<open>JFloat\<close> keeps the literal it was read from.
  Text is a \<open>string\<close>: the bytes of its UTF-8 encoding.
\<close>

datatype json =
    JNull
  | JBool bool
  | JInt int
  | JFloat string
  | JStr string
  | JArr "json list"
  | JObj "(string \<times> json) list"

text \<open>The exceptions the two receive loops can meet.\<close>

datatype exn =
    KeyError
  | TypeError
  | AttributeError
  | JSONDecodeError
  | WebSocketDisconnect
  | ConnectionClosed
  | RuntimeError

text \<open>\<^verbatim>\<open>d[k]\<close>: a missing key raises \<^verbatim>\<open>KeyError\<close>; a value that is not a
  \<^verbatim>\<open>dict\<close> cannot be indexed by a string and raises \<^verbatim>\<open>TypeError\<close> (a string key
  on a \<^verbatim>\<open>list\<close>, a \<^verbatim>\<open>str\<close>, a number or \<^verbatim>\<open>None\<close>).\<close>

fun subscript :: "json \<Rightarrow> string \<Rightarrow> exn + json" where
  "subscript (JObj kvs) k = (case map_of kvs k of None \<Rightarrow> Inl KeyError | Some v \<Rightarrow> Inr v)"
| "subscript _ k = Inl TypeError"

text \<open>\<^verbatim>\<open>d.get(k, default)\<close>: only a \<^verbatim>\<open>dict\<close> has the method.\<close>

fun get_default :: "json \<Rightarrow> string \<Rightarrow> json \<Rightarrow> exn + json" where
  "get_default (JObj kvs) k d = (case map_of kvs k of None \<Rightarrow> Inr d | Some v \<Rightarrow> Inr v)"
| "get_default _ k d = Inl AttributeError"

text \<open>Sequencing of steps that may raise.\<close>

fun bind_exn :: "exn + 'a \<Rightarrow> ('a \<Rightarrow> exn + 'b) \<Rightarrow> exn + 'b" where
  "bind_exn (Inl e) f = Inl e"
| "bind_exn (Inr x) f = f x"

text \<open>Truth value of a decoded value, as \<^verbatim>\<open>if x:\<close> tests it. A float is false when
  it is zero: every digit of its mantissa is \<open>0\<close> (underflow to zero of a literal with a
  huge negative exponent is not modelled).\<close>

definition float_nonzero :: "string \<Rightarrow> bool" where
  "float_nonzero s \<longleftrightarrow>
     s \<in> {''NaN'', ''Infinity'', ''-Infinity''} \<or>
     (\<exists>c \<in> set (takeWhile (\<lambda>c. c \<noteq> CHR ''e'' \<and> c \<noteq> CHR ''E'') s).
        c \<in> set ''123456789'')"

fun truthy :: "json \<Rightarrow> bool" where
  "truthy JNull = False"
| "truthy (JBool b) = b"
| "truthy (JInt i) = (i \<noteq> 0)"
| "truthy (JFloat s) = float_nonzero s"
| "truthy (JStr s) = (s \<noteq> [])"
| "truthy (JArr xs) = (xs \<noteq> [])"
| "truthy (JObj kvs) = (kvs \<noteq> [])"

text \<open>\<^verbatim>\<open>str.lower()\<close> on the letters A to Z; other bytes are kept (the lower case of
  a character outside ASCII is not modelled).\<close>

definition lower_char :: "char \<Rightarrow> char" where
  "lower_char c =
     (case map_of (zip ''ABCDEFGHIJKLMNOPQRSTUVWXYZ'' ''abcdefghijklmnopqrstuvwxyz'') c of
        None \<Rightarrow> c
      | Some l \<Rightarrow> l)"

definition lower :: "string \<Rightarrow> string" where
  "lower s = map lower_char s"

text \<open>\<^verbatim>\<open>x.lower()\<close> on a decoded value: only a \<^verbatim>\<open>str\<close> has the method.\<close>

fun lower_method :: "json \<Rightarrow> exn + string" where
  "lower_method (JStr s) = Inr (lower s)"
| "lower_method _ = Inl AttributeError"

text \<open>\<^verbatim>\<open>p in s\<close> on two strings: \<open>p\<close> occurs in \<open>s\<close> as a contiguous block.\<close>

fun starts_with :: "string \<Rightarrow> string \<Rightarrow> bool" where
  "starts_with [] s = True"
| "starts_with (p # ps) [] = False"
| "starts_with (p # ps) (c # cs) = (p = c \<and> starts_with ps cs)"

fun str_contains :: "string \<Rightarrow> string \<Rightarrow> bool" where
  "str_contains p [] = (p = [])"
| "str_contains p (c # cs) = (starts_with p (c # cs) \<or> str_contains p cs)"



section \<open>Constants of the two servers\<close>

text \<open>\<^verbatim>\<open>SYSTEM_INSTRUCTIONS\<close> is the same text in \<^verbatim>\<open>server.py\<close> and
  \<^verbatim>\<open>newServer.py\<close>: a triple-quoted string that opens with a line break, given here
  by its lines.\<close>

definition SYSTEM_INSTRUCTIONS_lines :: "string list" where
  \<open>SYSTEM_INSTRUCTIONS_lines =
    [
     ''You are SAVIRA, a professional HR interviewer from Kainskep Solutions.'',
     ''You are conducting a live outbound telephonic screening interview.'',
     '''',
     ''STRICT BEHAVIOR RULES:'',
     ''- Stay focused ONLY on job and interview-related conversation.'',
     ''- Ask a maximum of 8 to 10 interview questions in total.'',
     ''- Do NOT ask additional questions beyond these 8'' @ [CHR 0xE2, CHR 0x80, CHR 0x93] @ ''10 under any condition.'',
     ''- Ask ONE question at a time and wait for the candidate'' @ [CHR 0xE2, CHR 0x80, CHR 0x99] @ ''s response.'',
     ''- Keep responses short, clear, and professional (1'' @ [CHR 0xE2, CHR 0x80, CHR 0x93] @ ''2 sentences).'',
     ''- Do NOT engage in casual conversation or unrelated topics.'',
     ''- If the candidate goes off-topic, politely redirect them back to the interview.'',
     ''- Do NOT explain evaluation, scoring, or internal decisions.'',
     '''',
     ''INTERVIEW FLOW (FOLLOW STRICTLY):'',
     '''',
     ''STEP 1 '' @ [CHR 0xE2, CHR 0x80, CHR 0x93] @ '' GREETING:'',
     ''Say exactly:'',
     ''"Hello, I am SAVIRA from Kainskep Solutions. Are you currently looking for a job or considering a job change?"'',
     '''',
     ''Wait for a clear response.'',
     '''',
     ''If NO:'',
     ''- Say:'',
     ''"Thank you for your time. Have a great day. Goodbye."'',
     ''- End the conversation.'',
     '''',
     ''If YES:'',
     ''- Proceed to STEP 2.'',
     '''',
     ''STEP 2 '' @ [CHR 0xE2, CHR 0x80, CHR 0x93] @ '' ROLE CONFIRMATION:'',
     ''Ask:'',
     ''"Which role or position are you currently looking for?"'',
     '''',
     ''Do not proceed until the role is clearly stated.'',
     '''',
     ''STEP 3 '' @ [CHR 0xE2, CHR 0x80, CHR 0x93] @ '' INTERVIEW QUESTIONS (8'' @ [CHR 0xE2, CHR 0x80, CHR 0x93] @ ''10 TOTAL):'',
     ''- Ask 8 to 10 job-relevant interview questions based on the stated role.'',
     ''- These questions must naturally gather the following information where possible:'',
     ''  - Full name'',
     ''  - Email address'',
     ''  - Current or last company name'',
     ''  - Total years of experience'',
     ''  - Previous salary'',
     ''  - Expected salary'',
     ''  - Desired role'',
     ''- Do NOT ask separate questions only for data collection.'',
     ''- Embed required details naturally within interview-style questions.'',
     ''- If a detail is not provided, do NOT ask extra questions to collect it.'',
     ''- If a candidate refuses to share any detail, mark it internally as "Not disclosed".'',
     ''- Do NOT guess, assume, or overwrite previously provided information.'',
     '''',
     ''DATA HANDLING RULES:'',
     ''- Maintain an internal structured record of the candidate'' @ [CHR 0xE2, CHR 0x80, CHR 0x99] @ ''s responses.'',
     ''- Preserve the first confirmed value for each field.'',
     ''- Do NOT read collected data aloud during the interview.'',
     ''- Do NOT summarize candidate data during the call.'',
     '''',
     ''STEP 4 '' @ [CHR 0xE2, CHR 0x80, CHR 0x93] @ '' CLOSING:'',
     ''After completing the 8'' @ [CHR 0xE2, CHR 0x80, CHR 0x93] @ ''10 interview questions, say:'',
     ''"Thank you for your time. Your telephonic interview is complete. Based on your responses and our scoring system, shortlisted candidates will be contacted for the next round. Take care and goodbye."'',
     '''',
     ''POST-CLOSING BEHAVIOR:'',
     ''- After the closing statement, do not continue the conversation.'',
     ''- If the candidate speaks again, repeat the closing message once and stop responding.'',
     '''',
     ''VOICE STYLE:'',
     ''- Calm, confident, human, and professional.'',
     ''- Speak like a real HR interviewer, not a chatbot.''
    ]\<close>

definition SYSTEM_INSTRUCTIONS :: string where
  "SYSTEM_INSTRUCTIONS =
     concat (map (\<lambda>l. l @ ''\<newline>'') ([] # SYSTEM_INSTRUCTIONS_lines))"

text \<open>\<^verbatim>\<open>session_config\<close> of \<^verbatim>\<open>server.py\<close> (a local of \<^verbatim>\<open>media_stream\<close>) and
  of \<^verbatim>\<open>newServer.py\<close> (a function); only the first sets a temperature.\<close>

definition turn_detection :: json where
  "turn_detection =
     JObj [(''type'', JStr ''server_vad''),
           (''threshold'', JFloat ''0.5''),
           (''prefix_padding_ms'', JInt 300),
           (''silence_duration_ms'', JInt 700)]"

definition server_session_config :: json where
  "server_session_config =
     JObj [(''type'', JStr ''session.update''),
           (''session'', JObj
             [(''modalities'', JArr [JStr ''text'', JStr ''audio'']),
              (''instructions'', JStr SYSTEM_INSTRUCTIONS),
              (''voice'', JStr ''alloy''),
              (''input_audio_format'', JStr ''g711_ulaw''),
              (''output_audio_format'', JStr ''g711_ulaw''),
              (''input_audio_transcription'', JObj [(''model'', JStr ''whisper-1'')]),
              (''turn_detection'', turn_detection),
              (''temperature'', JFloat ''0.8'')])]"

definition newServer_session_config :: json where
  "newServer_session_config =
     JObj [(''type'', JStr ''session.update''),
           (''session'', JObj
             [(''modalities'', JArr [JStr ''text'', JStr ''audio'']),
              (''instructions'', JStr SYSTEM_INSTRUCTIONS),
              (''voice'', JStr ''alloy''),
              (''input_audio_format'', JStr ''g711_ulaw''),
              (''output_audio_format'', JStr ''g711_ulaw''),
              (''input_audio_transcription'', JObj [(''model'', JStr ''whisper-1'')]),
              (''turn_detection'', turn_detection)])]"

text \<open>The two greeting requests.\<close>

definition response_create :: "json list \<Rightarrow> string \<Rightarrow> json" where
  "response_create modalities instructions =
     JObj [(''type'', JStr ''response.create''),
           (''response'', JObj [(''modalities'', JArr modalities),
                                (''instructions'', JStr instructions)])]"

definition server_greeting_instructions :: string where
  "server_greeting_instructions =
     ''Hello, I am AIRA from Kainskep Solutions. '' @
     ''Are you currently looking for a job or considering a job change?''"

definition server_greeting_message :: json where
  "server_greeting_message =
     response_create [JStr ''text'', JStr ''audio''] server_greeting_instructions"

definition newServer_greeting_instructions :: string where
  "newServer_greeting_instructions =
     ''Hello, I am SAVIRA from Kainskep Solutions. '' @
     ''Are you currently looking for a job or considering a job change?''"

definition newServer_greeting_message :: json where
  "newServer_greeting_message =
     response_create [JStr ''text'', JStr ''audio''] newServer_greeting_instructions"

text \<open>The extraction requests: \<^verbatim>\<open>final_extraction\<close> of \<^verbatim>\<open>server.py\<close> and
  \<^verbatim>\<open>extraction_prompt()\<close> of \<^verbatim>\<open>newServer.py\<close>. Both ask for the same seven
  keys.\<close>

definition final_extraction_instructions :: string where
  \<open>final_extraction_instructions =
     ''Extract candidate information from the full conversation so far. '' @
     ''Return STRICT JSON ONLY with the following keys:\<newline>'' @
     ''{'' @
     ''"full_name": string or null, '' @
     ''"email": string or null, '' @
     ''"role": string or null, '' @
     ''"last_company_name": string or null, '' @
     ''"experience": string or null, '' @
     ''"previous_salary": string or null, '' @
     ''"expected_salary": string or null'' @
     ''}''\<close>

definition final_extraction :: json where
  "final_extraction = response_create [JStr ''text''] final_extraction_instructions"

definition extraction_prompt_instructions :: string where
  \<open>extraction_prompt_instructions =
     ''Extract candidate information from the conversation. '' @
     ''Return STRICT JSON only:\<newline>'' @
     ''{'' @
     ''"full_name": string|null, '' @
     ''"email": string|null, '' @
     ''"role": string|null, '' @
     ''"last_company_name": string|null, '' @
     ''"experience": string|null, '' @
     ''"previous_salary": string|null, '' @
     ''"expected_salary": string|null'' @
     ''}''\<close>

definition extraction_prompt :: json where
  "extraction_prompt = response_create [JStr ''text''] extraction_prompt_instructions"

text \<open>The messages the relay builds.\<close>

definition audio_message :: "json \<Rightarrow> json" where
  "audio_message audio_payload =
     JObj [(''type'', JStr ''input_audio_buffer.append''), (''audio'', audio_payload)]"

definition commit_message :: json where
  "commit_message = JObj [(''type'', JStr ''input_audio_buffer.commit'')]"

definition media_message :: "json \<Rightarrow> json \<Rightarrow> json" where
  "media_message sid audio_delta =
     JObj [(''event'', JStr ''media''),
           (''streamSid'', sid),
           (''media'', JObj [(''payload'', audio_delta)])]"

text \<open>The closing phrases of \<^verbatim>\<open>server.py\<close> (written inside the condition) and the
  list \<^verbatim>\<open>closing_phrases\<close> of \<^verbatim>\<open>newServer.py\<close>.\<close>

definition server_closing_phrases :: "string list" where
  "server_closing_phrases =
     [''interview is complete'', ''interview is done'', ''thank you for your time'']"

definition closing_phrases :: "string list" where
  "closing_phrases =
     [''interview is complete'', ''thank you for your time'', ''take care and goodbye'',
      ''goodbye'', ''telephonic interview is complete'']"

text \<open>\<^verbatim>\<open>any(phrase in text for phrase in phrases)\<close>.\<close>

definition any_phrase_in :: "string list \<Rightarrow> string \<Rightarrow> bool" where
  "any_phrase_in phrases text = list_ex (\<lambda>phrase. str_contains phrase text) phrases"

section \<open>Effects, tasks and the environment\<close>

text \<open>
  What a session does is the list of its effects, in order: a message sent into the AI
  connection (\<^verbatim>\<open>openai_ws.send\<close>, given as the value before \<^verbatim>\<open>json.dumps\<close>), a
  message sent to the phone connection (\<^verbatim>\<open>websocket.send_text\<close>), the closing of either
  connection, and a printed line (its fixed words, without the emoji, and the values the
  line shows).
\<close>

datatype action =
    SendOpenAI json
  | SendTwilio json
  | CloseOpenAI
  | CloseTwilio nat string
  | Print string "json list"
  | PrintExn string exn

primrec sent_openai :: "action list \<Rightarrow> json list" where
  "sent_openai [] = []"
| "sent_openai (a # as) = (case a of SendOpenAI m \<Rightarrow> m # sent_openai as | _ \<Rightarrow> sent_openai as)"

primrec sent_twilio :: "action list \<Rightarrow> json list" where
  "sent_twilio [] = []"
| "sent_twilio (a # as) = (case a of SendTwilio m \<Rightarrow> m # sent_twilio as | _ \<Rightarrow> sent_twilio as)"

text \<open>
  Each of the two coroutines of a session is a loop around one receive. The environment
  decides what a receive yields, a decoded message or an exception (of the receive or of
  \<^verbatim>\<open>json.loads\<close>), and whether the send of that iteration, if it makes one, is delivered
  (\<open>None\<close>) or raises. No iteration sends twice, and between the receive and the send an
  iteration does not yield, so an iteration is one step of the session.
\<close>

datatype recv = Raises exn | Msg json

datatype input =
    FromTwilio recv "exn option"
  | FromOpenAI recv "exn option"

text \<open>How one pass through a loop body ends.\<close>

datatype outcome = Continue | Break | Raise exn

datatype task_status = Running | Returned | Raised exn

text \<open>The variables both coroutines of \<^verbatim>\<open>media_stream\<close> share in both servers, and the
  state of the two tasks.\<close>

record session =
  stream_sid :: json
  twilio_task :: task_status
  openai_task :: task_status

section \<open>\<^verbatim>\<open>server.py\<close>\<close>

text \<open>\<^verbatim>\<open>interview_completed\<close> and \<^verbatim>\<open>extraction_requested\<close> are the \<^verbatim>\<open>nonlocal\<close>
  flags of \<^verbatim>\<open>openai_to_twilio\<close>, \<^verbatim>\<open>audio_count\<close> the counter of
  \<^verbatim>\<open>twilio_to_openai\<close>; \<open>finished\<close> records that \<^verbatim>\<open>asyncio.gather\<close> has returned and
  the \<^verbatim>\<open>finally\<close> block has closed the AI connection. (The local
  \<^verbatim>\<open>extraction_triggered\<close> is never read or written after its initialisation.)\<close>

record server_state = session +
  interview_completed :: bool
  extraction_requested :: bool
  audio_count :: nat
  finished :: bool

subsection \<open>\<^verbatim>\<open>twilio_to_openai\<close>\<close>

definition server_twilio_body ::
  "server_state \<Rightarrow> recv \<Rightarrow> exn option \<Rightarrow> server_state \<times> action list \<times> outcome" where
  "server_twilio_body st message send =
     (case message of
        Raises e \<Rightarrow> (st, [], Raise e)
      | Msg data \<Rightarrow>
         (case subscript data ''event'' of
            Inl e \<Rightarrow> (st, [], Raise e)
          | Inr event \<Rightarrow>
             if event = JStr ''start'' then
               (case bind_exn (subscript data ''start'') (\<lambda>s. subscript s ''streamSid'') of
                  Inl e \<Rightarrow> (st, [], Raise e)
                | Inr sid \<Rightarrow>
                    (st\<lparr>stream_sid := sid\<rparr>, [Print ''Stream started'' [sid]], Continue))
             else if event = JStr ''media'' then
               (case bind_exn (subscript data ''media'') (\<lambda>m. subscript m ''payload'') of
                  Inl e \<Rightarrow> (st, [], Raise e)
                | Inr audio_payload \<Rightarrow>
                   (case send of
                      Some e \<Rightarrow> (st, [], Raise e)
                    | None \<Rightarrow>
                       (st\<lparr>audio_count := audio_count st + 1\<rparr>,
                        SendOpenAI (audio_message audio_payload) #
                          (if (audio_count st + 1) mod 100 = 0
                           then [Print ''Received audio packets from caller''
                                   [JInt (int (audio_count st + 1))]]
                           else []),
                        Continue)))
             else if event = JStr ''stop'' then
               (case send of
                  Some e \<Rightarrow> (st, [Print ''Stream stopped by Twilio'' []], Raise e)
                | None \<Rightarrow>
                   (st, [Print ''Stream stopped by Twilio'' [], SendOpenAI commit_message],
                    Break))
             else (st, [], Continue)))"

text \<open>The two \<^verbatim>\<open>except\<close> clauses inside the loop: both print and \<^verbatim>\<open>break\<close>, so every
  way out of the loop makes the coroutine return.\<close>

definition server_twilio_to_openai ::
  "server_state \<Rightarrow> recv \<Rightarrow> exn option \<Rightarrow> server_state \<times> action list" where
  "server_twilio_to_openai st message send =
     (case server_twilio_body st message send of
        (st', acts, Continue) \<Rightarrow> (st', acts)
      | (st', acts, Break) \<Rightarrow> (st'\<lparr>twilio_task := Returned\<rparr>, acts)
      | (st', acts, Raise e) \<Rightarrow>
          (st'\<lparr>twilio_task := Returned\<rparr>,
           acts @ [if e = WebSocketDisconnect then Print ''Twilio disconnected'' []
                   else PrintExn ''Error receiving from Twilio'' e]))"

subsection \<open>\<^verbatim>\<open>openai_to_twilio\<close>\<close>

text \<open>The branch for \<^verbatim>\<open>response.audio_transcript.done\<close>. When
  \<^verbatim>\<open>extraction_requested\<close> is set, \<^verbatim>\<open>and\<close> does not evaluate the phrase test.\<close>

definition server_on_audio_transcript ::
  "server_state \<Rightarrow> json \<Rightarrow> exn option \<Rightarrow> server_state \<times> action list \<times> outcome" where
  "server_on_audio_transcript st response send =
     (case get_default response ''transcript'' (JStr []) of
        Inl e \<Rightarrow> (st, [], Raise e)
      | Inr transcript \<Rightarrow>
         if extraction_requested st then (st, [Print ''AI said'' [transcript]], Continue)
         else
           (case lower_method transcript of
              Inl e \<Rightarrow> (st, [Print ''AI said'' [transcript]], Raise e)
            | Inr text \<Rightarrow>
               if any_phrase_in server_closing_phrases text then
                 (case send of
                    Some e \<Rightarrow>
                      (st\<lparr>extraction_requested := True, interview_completed := True\<rparr>,
                       [Print ''AI said'' [transcript],
                        Print ''Interview completion detected'' []],
                       Raise e)
                  | None \<Rightarrow>
                      (st\<lparr>extraction_requested := True, interview_completed := True\<rparr>,
                       [Print ''AI said'' [transcript],
                        Print ''Interview completion detected'' [],
                        SendOpenAI final_extraction],
                       Continue))
               else (st, [Print ''AI said'' [transcript]], Continue)))"

text \<open>The branch for \<^verbatim>\<open>response.audio.delta\<close>.\<close>

definition server_on_audio_delta ::
  "server_state \<Rightarrow> json \<Rightarrow> exn option \<Rightarrow> server_state \<times> action list \<times> outcome" where
  "server_on_audio_delta st response send =
     (if truthy (stream_sid st) then
        (case subscript response ''delta'' of
           Inl e \<Rightarrow> (st, [], Raise e)
         | Inr audio_delta \<Rightarrow>
            (case send of
               Some e \<Rightarrow> (st, [], Raise e)
             | None \<Rightarrow>
                (st, [SendTwilio (media_message (stream_sid st) audio_delta)], Continue)))
      else (st, [], Continue))"

definition server_openai_body ::
  "server_state \<Rightarrow> recv \<Rightarrow> exn option \<Rightarrow> server_state \<times> action list \<times> outcome" where
  "server_openai_body st message send =
     (case message of
        Raises e \<Rightarrow> (st, [], Raise e)
      | Msg response \<Rightarrow>
         (case subscript response ''type'' of
            Inl e \<Rightarrow> (st, [], Raise e)
          | Inr ty \<Rightarrow>
             if ty = JStr ''session.created'' then
               (st, [Print ''OpenAI session created'' []], Continue)
             else if ty = JStr ''session.updated'' then
               (st, [Print ''OpenAI session updated'' []], Continue)
             else if ty = JStr ''input_audio_buffer.speech_started'' then
               (st, [Print ''User started speaking'' []], Continue)
             else if ty = JStr ''input_audio_buffer.speech_stopped'' then
               (st, [Print ''User stopped speaking'' []], Continue)
             else if ty = JStr ''input_audio_buffer.committed'' then
               (st, [Print ''Audio buffer committed'' []], Continue)
             else if ty = JStr ''response.created'' then
               (st, [Print ''AI is generating response'' []], Continue)
             else if ty = JStr ''response.audio.delta'' then
               server_on_audio_delta st response send
             else if ty = JStr ''response.audio.done'' then
               (st, [Print ''AI finished speaking'' []], Continue)
             else if ty = JStr ''response.audio_transcript.done'' then
               server_on_audio_transcript st response send
             else if ty = JStr ''conversation.item.input_audio_transcription.completed'' then
               (case get_default response ''transcript'' (JStr []) of
                  Inl e \<Rightarrow> (st, [], Raise e)
                | Inr transcript \<Rightarrow> (st, [Print ''User said'' [transcript]], Continue))
             else if ty = JStr ''error'' then
               (case get_default response ''error'' (JObj []) of
                  Inl e \<Rightarrow> (st, [], Raise e)
                | Inr error_info \<Rightarrow> (st, [Print ''OpenAI error'' [error_info]], Continue))
             else if ty = JStr ''response.output_text.delta'' then
               (case subscript response ''delta'' of
                  Inl e \<Rightarrow> (st, [], Raise e)
                | Inr delta \<Rightarrow> (st, [Print ''Extraction chunk'' [delta]], Continue))
             else if ty = JStr ''response.output_text.done'' then
               (case get_default response ''text'' (JStr []) of
                  Inl e \<Rightarrow> (st, [], Raise e)
                | Inr extracted_json \<Rightarrow>
                    (st, [Print ''FINAL CANDIDATE DATA'' [extracted_json]], Continue))
             else (st, [], Continue)))"

definition server_openai_to_twilio ::
  "server_state \<Rightarrow> recv \<Rightarrow> exn option \<Rightarrow> server_state \<times> action list" where
  "server_openai_to_twilio st message send =
     (case server_openai_body st message send of
        (st', acts, Continue) \<Rightarrow> (st', acts)
      | (st', acts, Break) \<Rightarrow> (st'\<lparr>openai_task := Returned\<rparr>, acts)
      | (st', acts, Raise e) \<Rightarrow>
          (st'\<lparr>openai_task := Returned\<rparr>,
           acts @ [if e = ConnectionClosed then Print ''OpenAI connection closed'' []
                   else PrintExn ''Error receiving from OpenAI'' e]))"

subsection \<open>\<^verbatim>\<open>media_stream\<close>\<close>

text \<open>
  \<^verbatim>\<open>await asyncio.gather(twilio_to_openai(), openai_to_twilio())\<close> runs the two
  coroutines as tasks and returns once both have returned; it cancels neither. Neither
  coroutine of \<^verbatim>\<open>server.py\<close> lets an exception escape. A message for a task that is
  no longer running is not received. When the second task has returned, the
  \<^verbatim>\<open>finally\<close> block closes the AI connection.
\<close>

definition server_step :: "server_state \<Rightarrow> input \<Rightarrow> server_state \<times> action list" where
  "server_step st i =
     (case i of
        FromTwilio message send \<Rightarrow>
          if twilio_task st = Running then server_twilio_to_openai st message send
          else (st, [])
      | FromOpenAI message send \<Rightarrow>
          if openai_task st = Running then server_openai_to_twilio st message send
          else (st, []))"

definition server_finally :: "server_state \<times> action list \<Rightarrow> server_state \<times> action list" where
  "server_finally r =
     (case r of (st, acts) \<Rightarrow>
        if twilio_task st \<noteq> Running \<and> openai_task st \<noteq> Running \<and> \<not> finished st
        then (st\<lparr>finished := True\<rparr>, acts @ [CloseOpenAI, Print ''Connections closed'' []])
        else (st, acts))"

fun server_run :: "server_state \<Rightarrow> input list \<Rightarrow> server_state \<times> action list" where
  "server_run st [] = (st, [])"
| "server_run st (i # inputs) =
     (case server_finally (server_step st i) of
        (st', acts) \<Rightarrow> (case server_run st' inputs of (st'', acts') \<Rightarrow> (st'', acts @ acts')))"

text \<open>The start of \<^verbatim>\<open>media_stream\<close>: the check of the API key, the connection to the
  AI service and the two commands sent before the tasks start. \<open>None\<close> as state: the
  tasks were never started.\<close>

record startup_env =
  api_key :: "string option"
  connect :: "exn option"
  config_send :: "exn option"
  greeting_send :: "exn option"

definition server_initial :: server_state where
  "server_initial =
     \<lparr>stream_sid = JNull, twilio_task = Running, openai_task = Running,
      interview_completed = False, extraction_requested = False, audio_count = 0,
      finished = False\<rparr>"

definition server_startup :: "startup_env \<Rightarrow> server_state option \<times> action list" where
  "server_startup env =
     (if api_key env = None \<or> api_key env = Some [] \<or>
         api_key env = Some ''your-openai-realtime-api-key-here''
      then (None,
            [Print ''Twilio WebSocket connected'' [],
             Print ''ERROR: OPENAI_REALTIME_API_KEY not configured in .env'' [],
             CloseTwilio 1008 ''OpenAI API key not configured''])
      else
        (case connect env of
           Some e \<Rightarrow>
             (None,
              [Print ''Twilio WebSocket connected'' [],
               Print ''Connecting to OpenAI Realtime API'' [],
               PrintExn ''WebSocket error'' e,
               Print ''Connections closed'' []])
         | None \<Rightarrow>
            (case config_send env of
               Some e \<Rightarrow>
                 (None,
                  [Print ''Twilio WebSocket connected'' [],
                   Print ''Connecting to OpenAI Realtime API'' [],
                   Print ''Connected to OpenAI Realtime API'' [],
                   PrintExn ''WebSocket error'' e,
                   CloseOpenAI,
                   Print ''Connections closed'' []])
             | None \<Rightarrow>
                (case greeting_send env of
                   Some e \<Rightarrow>
                     (None,
                      [Print ''Twilio WebSocket connected'' [],
                       Print ''Connecting to OpenAI Realtime API'' [],
                       Print ''Connected to OpenAI Realtime API'' [],
                       SendOpenAI server_session_config,
                       Print ''Session configured with g711_ulaw audio format'' [],
                       PrintExn ''WebSocket error'' e,
                       CloseOpenAI,
                       Print ''Connections closed'' []])
                 | None \<Rightarrow>
                     (Some server_initial,
                      [Print ''Twilio WebSocket connected'' [],
                       Print ''Connecting to OpenAI Realtime API'' [],
                       Print ''Connected to OpenAI Realtime API'' [],
                       SendOpenAI server_session_config,
                       Print ''Session configured with g711_ulaw audio format'' [],
                       SendOpenAI server_greeting_message,
                       Print ''Sent greeting request to AI'' []])))))"

definition server_media_stream ::
  "startup_env \<Rightarrow> input list \<Rightarrow> server_state option \<times> action list" where
  "server_media_stream env inputs =
     (case server_startup env of
        (None, acts) \<Rightarrow> (None, acts)
      | (Some st, acts) \<Rightarrow>
          (case server_run st inputs of (st', acts') \<Rightarrow> (Some st', acts @ acts')))"

section \<open>Decoding the extraction response\<close>

text \<open>
  \<^verbatim>\<open>re.search(r'\{.*\}', text, re.DOTALL)\<close>: the leftmost match starts at the first
  opening brace that has a closing brace after it, which is the first opening brace of the
  text when there is a match at all; \<^verbatim>\<open>.*\<close> is greedy and, with \<^verbatim>\<open>DOTALL\<close>, runs over
  line breaks, so the match ends at the last closing brace.
\<close>

definition re_search_braces :: "string \<Rightarrow> string option" where
  "re_search_braces text =
     (case dropWhile (\<lambda>c. c \<noteq> CHR ''{'') text of
        [] \<Rightarrow> None
      | b # r \<Rightarrow>
          if CHR ''}'' \<in> set r
          then Some (b # rev (dropWhile (\<lambda>c. c \<noteq> CHR ''}'') (rev r)))
          else None)"

text \<open>
  \<^verbatim>\<open>json.loads\<close> of the standard library, as its decoder reads a text: white space is
  blank, tab, line feed and carriage return; a string is read strictly (no control
  character in it), a \<^verbatim>\<open>\uXXXX\<close> escape becomes the UTF-8 bytes of its code point and two
  escapes that form a surrogate pair become one code point; a number without fraction and
  exponent is an \<^verbatim>\<open>int\<close>, any other a \<^verbatim>\<open>float\<close>; \<^verbatim>\<open>NaN\<close>, \<^verbatim>\<open>Infinity\<close> and
  \<^verbatim>\<open>-Infinity\<close> are accepted; a repeated key of an object keeps its first place and
  takes the last value. \<open>None\<close> is \<^verbatim>\<open>JSONDecodeError\<close>. (The interpreter's recursion
  limit is not modelled.)
\<close>

definition is_ws :: "char \<Rightarrow> bool" where
  "is_ws c \<longleftrightarrow> c \<in> set [CHR '' '', CHR 0x09, CHR 0x0A, CHR 0x0D]"

definition skip_ws :: "string \<Rightarrow> string" where
  "skip_ws = dropWhile is_ws"

definition is_digit :: "char \<Rightarrow> bool" where
  "is_digit c \<longleftrightarrow> c \<in> set ''0123456789''"

definition hex_value :: "char \<Rightarrow> nat option" where
  "hex_value c =
     map_of (zip ''0123456789abcdefABCDEF''
               [0, 1, 2, 3, 4, 5, 6, 7, 8, 9, 10, 11, 12, 13, 14, 15, 10, 11, 12, 13, 14, 15]) c"

text \<open>The four hexadecimal digits after \<^verbatim>\<open>\u\<close>.\<close>

definition decode_uXXXX :: "string \<Rightarrow> nat option" where
  "decode_uXXXX s =
     (case map hex_value (take 4 s) of
        [Some a, Some b, Some c, Some d] \<Rightarrow> Some (((a * 16 + b) * 16 + c) * 16 + d)
      | _ \<Rightarrow> None)"

definition utf8 :: "nat \<Rightarrow> string" where
  "utf8 u =
     (if u < 0x80 then [char_of u]
      else if u < 0x800 then [char_of (0xC0 + u div 64), char_of (0x80 + u mod 64)]
      else if u < 0x10000 then
        [char_of (0xE0 + u div 4096), char_of (0x80 + u div 64 mod 64), char_of (0x80 + u mod 64)]
      else
        [char_of (0xF0 + u div 262144), char_of (0x80 + u div 4096 mod 64),
         char_of (0x80 + u div 64 mod 64), char_of (0x80 + u mod 64)])"

definition backslash :: "char \<Rightarrow> char option" where
  "backslash c =
     map_of [(CHR 0x22, CHR 0x22), (CHR 0x5C, CHR 0x5C), (CHR ''/'', CHR ''/''),
             (CHR ''b'', CHR 0x08), (CHR ''f'', CHR 0x0C), (CHR ''n'', CHR 0x0A),
             (CHR ''r'', CHR 0x0D), (CHR ''t'', CHR 0x09)] c"

text \<open>One \<^verbatim>\<open>\u\<close> escape, read after the \<^verbatim>\<open>u\<close>: its code point, joined with a low
  surrogate that follows a high one, and the rest of the text.\<close>

definition scan_unicode_escape :: "string \<Rightarrow> (nat \<times> string) option" where
  "scan_unicode_escape s =
     (case decode_uXXXX s of
        None \<Rightarrow> None
      | Some uni \<Rightarrow>
          if 0xD800 \<le> uni \<and> uni \<le> 0xDBFF \<and> take 2 (drop 4 s) = [CHR 0x5C, CHR ''u''] then
            (case decode_uXXXX (drop 6 s) of
               None \<Rightarrow> None
             | Some uni2 \<Rightarrow>
                 if 0xDC00 \<le> uni2 \<and> uni2 \<le> 0xDFFF
                 then Some (0x10000 + ((uni - 0xD800) * 1024 + (uni2 - 0xDC00)), drop 10 s)
                 else Some (uni, drop 4 s))
          else Some (uni, drop 4 s))"

text \<open>\<^verbatim>\<open>scanstring\<close>, from the character after the opening quote: the string and the
  text after its closing quote.\<close>

function scanstring :: "string \<Rightarrow> (string \<times> string) option" where
  "scanstring [] = None"
| "scanstring (c # cs) =
     (if c = CHR 0x22 then Some ([], cs)
      else if c = CHR 0x5C then
        (case cs of
           [] \<Rightarrow> None
         | esc # r \<Rightarrow>
             if esc = CHR ''u'' then
               (case scan_unicode_escape r of
                  None \<Rightarrow> None
                | Some (uni, r') \<Rightarrow>
                    (case scanstring r' of
                       None \<Rightarrow> None
                     | Some (s, rest) \<Rightarrow> Some (utf8 uni @ s, rest)))
             else
               (case backslash esc of
                  None \<Rightarrow> None
                | Some ch \<Rightarrow>
                    (case scanstring r of
                       None \<Rightarrow> None
                     | Some (s, rest) \<Rightarrow> Some (ch # s, rest))))
      else if (of_char c :: nat) < 0x20 then None
      else
        (case scanstring cs of
           None \<Rightarrow> None
         | Some (s, rest) \<Rightarrow> Some (c # s, rest)))"
  by pat_completeness auto

lemma scan_unicode_escape_length:
  "scan_unicode_escape s = Some (u, r) \<Longrightarrow> length r \<le> length s"
  by (auto simp: scan_unicode_escape_def split: option.splits if_splits)

termination scanstring
  by (relation "measure length") (auto dest: scan_unicode_escape_length)

text \<open>The number at the start of a text, by the decoder's pattern
  \<^verbatim>\<open>(-?(?:0|[1-9][0-9]*))(\.[0-9]+)?([eE][-+]?[0-9]+)?\<close>.\<close>

definition scan_digits :: "string \<Rightarrow> string \<times> string" where
  "scan_digits s = (takeWhile is_digit s, dropWhile is_digit s)"

definition scan_integer_part :: "string \<Rightarrow> (string \<times> string) option" where
  "scan_integer_part s =
     (case s of
        [] \<Rightarrow> None
      | d # r \<Rightarrow>
          if d = CHR ''0'' then Some ([d], r)
          else if is_digit d then Some (d # fst (scan_digits r), snd (scan_digits r))
          else None)"

definition scan_fraction :: "string \<Rightarrow> string \<times> string" where
  "scan_fraction s =
     (case s of
        [] \<Rightarrow> ([], s)
      | p # r \<Rightarrow>
          if p = CHR ''.'' \<and> fst (scan_digits r) \<noteq> []
          then (p # fst (scan_digits r), snd (scan_digits r))
          else ([], s))"

definition scan_exponent :: "string \<Rightarrow> string \<times> string" where
  "scan_exponent s =
     (case s of
        [] \<Rightarrow> ([], s)
      | e # r \<Rightarrow>
          if e = CHR ''e'' \<or> e = CHR ''E'' then
            (case r of
               [] \<Rightarrow> ([], s)
             | sg # r' \<Rightarrow>
                 if sg = CHR ''-'' \<or> sg = CHR ''+'' then
                   (if fst (scan_digits r') \<noteq> []
                    then (e # sg # fst (scan_digits r'), snd (scan_digits r'))
                    else ([], s))
                 else if fst (scan_digits r) \<noteq> []
                 then (e # fst (scan_digits r), snd (scan_digits r))
                 else ([], s))
          else ([], s))"

definition digits_value :: "string \<Rightarrow> int" where
  "digits_value ds = foldl (\<lambda>n d. 10 * n + (int (of_char d) - 48)) 0 ds"

definition scan_number :: "string \<Rightarrow> (json \<times> string) option" where
  "scan_number s =
     (let minus = (s \<noteq> [] \<and> hd s = CHR ''-'');
          s1 = (if minus then tl s else s)
      in case scan_integer_part s1 of
           None \<Rightarrow> None
         | Some (integer, s2) \<Rightarrow>
             (case scan_fraction s2 of (frac, s3) \<Rightarrow>
               (case scan_exponent s3 of (ex, s4) \<Rightarrow>
                  if frac = [] \<and> ex = []
                  then Some (JInt (if minus then - digits_value integer
                                   else digits_value integer), s4)
                  else Some (JFloat ((if minus then ''-'' else []) @ integer @ frac @ ex),
                             s4))))"

text \<open>
  \<^verbatim>\<open>scan_once\<close>, \<^verbatim>\<open>JSONObject\<close> (from the first key of an object that is not empty)
  and \<^verbatim>\<open>JSONArray\<close> (from the first item). The first argument bounds the number of
  nested calls; \<^verbatim>\<open>json_loads\<close> below passes more than the decoder can use.
\<close>

fun scan_once :: "nat \<Rightarrow> string \<Rightarrow> (json \<times> string) option"
  and JSONObject :: "nat \<Rightarrow> string \<Rightarrow> (string \<times> json) list \<Rightarrow> (json \<times> string) option"
  and JSONArray :: "nat \<Rightarrow> string \<Rightarrow> json list \<Rightarrow> (json \<times> string) option"
where
  "scan_once 0 s = None"
| "scan_once (Suc n) [] = None"
| "scan_once (Suc n) (c # cs) =
     (if c = CHR 0x22 then
        (case scanstring cs of None \<Rightarrow> None | Some (str, rest) \<Rightarrow> Some (JStr str, rest))
      else if c = CHR ''{'' then
        (case skip_ws cs of
           [] \<Rightarrow> None
         | d # r \<Rightarrow> if d = CHR ''}'' then Some (JObj [], r) else JSONObject n (d # r) [])
      else if c = CHR ''['' then
        (case skip_ws cs of
           [] \<Rightarrow> None
         | d # r \<Rightarrow> if d = CHR '']'' then Some (JArr [], r) else JSONArray n (d # r) [])
      else if starts_with ''null'' (c # cs) then Some (JNull, drop 4 (c # cs))
      else if starts_with ''true'' (c # cs) then Some (JBool True, drop 4 (c # cs))
      else if starts_with ''false'' (c # cs) then Some (JBool False, drop 5 (c # cs))
      else
        (case scan_number (c # cs) of
           Some r \<Rightarrow> Some r
         | None \<Rightarrow>
             if starts_with ''NaN'' (c # cs) then Some (JFloat ''NaN'', drop 3 (c # cs))
             else if starts_with ''Infinity'' (c # cs)
             then Some (JFloat ''Infinity'', drop 8 (c # cs))
             else if starts_with ''-Infinity'' (c # cs)
             then Some (JFloat ''-Infinity'', drop 9 (c # cs))
             else None))"
| "JSONObject 0 s pairs = None"
| "JSONObject (Suc n) s pairs =
     (case s of
        [] \<Rightarrow> None
      | q # r \<Rightarrow>
          if q \<noteq> CHR 0x22 then None
          else
            (case scanstring r of
               None \<Rightarrow> None
             | Some (key, r1) \<Rightarrow>
                 (case skip_ws r1 of
                    [] \<Rightarrow> None
                  | colon # r2 \<Rightarrow>
                      if colon \<noteq> CHR '':'' then None
                      else
                        (case scan_once n (skip_ws r2) of
                           None \<Rightarrow> None
                         | Some (v, r3) \<Rightarrow>
                             (case skip_ws r3 of
                                [] \<Rightarrow> None
                              | d # r4 \<Rightarrow>
                                  if d = CHR ''}''
                                  then Some (JObj (AList.update key v pairs), r4)
                                  else if d = CHR '',''
                                  then JSONObject n (skip_ws r4) (AList.update key v pairs)
                                  else None)))))"
| "JSONArray 0 s vals = None"
| "JSONArray (Suc n) s vals =
     (case scan_once n s of
        None \<Rightarrow> None
      | Some (v, r1) \<Rightarrow>
          (case skip_ws r1 of
             [] \<Rightarrow> None
           | d # r2 \<Rightarrow>
               if d = CHR '']'' then Some (JArr (vals @ [v]), r2)
               else if d = CHR '','' then JSONArray n (skip_ws r2) (vals @ [v])
               else None))"

definition json_loads :: "string \<Rightarrow> json option" where
  "json_loads s =
     (case scan_once (Suc (length s)) (skip_ws s) of
        None \<Rightarrow> None
      | Some (v, rest) \<Rightarrow> if skip_ws rest = [] then Some v else None)"

text \<open>The \<^verbatim>\<open>try\<close> block of the branch for \<^verbatim>\<open>response.output_text.done\<close>: the match,
  the decoding, and \<^verbatim>\<open>candidate_data.items()\<close>, which only a \<^verbatim>\<open>dict\<close> has. A text that
  is not a \<^verbatim>\<open>str\<close> makes \<^verbatim>\<open>re.search\<close> raise \<^verbatim>\<open>TypeError\<close>. Every exception is
  caught by one of the two \<^verbatim>\<open>except\<close> clauses.\<close>

datatype extraction_result =
    Candidate "(string \<times> json) list"
  | NoJsonFound
  | ParseFailed
  | ProcessingError exn

definition extract_candidate :: "json \<Rightarrow> extraction_result" where
  "extract_candidate extracted_text =
     (case extracted_text of
        JStr text \<Rightarrow>
          (case re_search_braces text of
             None \<Rightarrow> NoJsonFound
           | Some json_match \<Rightarrow>
               (case json_loads json_match of
                  None \<Rightarrow> ParseFailed
                | Some (JObj candidate_data) \<Rightarrow> Candidate candidate_data
                | Some _ \<Rightarrow> ProcessingError AttributeError))
      | _ \<Rightarrow> ProcessingError TypeError)"

text \<open>What the block prints: the decoded items (one line for each, shown here as one
  line with the whole \<^verbatim>\<open>dict\<close>), or the warning of the failure.\<close>

definition report_extraction :: "extraction_result \<Rightarrow> action" where
  "report_extraction r =
     (case r of
        Candidate candidate_data \<Rightarrow> Print ''EXTRACTED CANDIDATE DATA'' [JObj candidate_data]
      | NoJsonFound \<Rightarrow> Print ''No JSON found in extraction response'' []
      | ParseFailed \<Rightarrow> PrintExn ''Failed to parse extraction JSON'' JSONDecodeError
      | ProcessingError e \<Rightarrow> PrintExn ''Error processing extraction'' e)"



section \<open>\<^verbatim>\<open>newServer.py\<close>\<close>

text \<open>\<^verbatim>\<open>extraction_done\<close> is the \<^verbatim>\<open>nonlocal\<close> flag of \<^verbatim>\<open>openai_to_twilio\<close>,
  \<^verbatim>\<open>conversation_turns\<close> its local counter; \<open>media_stream_status\<close> is the state of
  \<^verbatim>\<open>media_stream\<close> itself, which waits in \<^verbatim>\<open>asyncio.gather\<close>.\<close>

record newServer_state = session +
  extraction_done :: bool
  conversation_turns :: nat
  media_stream_status :: task_status

subsection \<open>\<^verbatim>\<open>twilio_to_openai\<close>\<close>

definition newServer_twilio_body ::
  "newServer_state \<Rightarrow> recv \<Rightarrow> exn option \<Rightarrow> newServer_state \<times> action list \<times> outcome" where
  "newServer_twilio_body st message send =
     (case message of
        Raises e \<Rightarrow> (st, [], Raise e)
      | Msg msg \<Rightarrow>
         (case subscript msg ''event'' of
            Inl e \<Rightarrow> (st, [], Raise e)
          | Inr event \<Rightarrow>
             if event = JStr ''start'' then
               (case bind_exn (subscript msg ''start'') (\<lambda>s. subscript s ''streamSid'') of
                  Inl e \<Rightarrow> (st, [], Raise e)
                | Inr sid \<Rightarrow>
                    (st\<lparr>stream_sid := sid\<rparr>, [Print ''Stream started'' [sid]], Continue))
             else if event = JStr ''media'' then
               (case bind_exn (subscript msg ''media'') (\<lambda>m. subscript m ''payload'') of
                  Inl e \<Rightarrow> (st, [], Raise e)
                | Inr payload \<Rightarrow>
                   (case send of
                      Some e \<Rightarrow> (st, [], Raise e)
                    | None \<Rightarrow> (st, [SendOpenAI (audio_message payload)], Continue)))
             else if event = JStr ''stop'' then
               (case send of
                  Some e \<Rightarrow> (st, [], Raise e)
                | None \<Rightarrow> (st, [SendOpenAI commit_message], Break))
             else (st, [], Continue)))"

text \<open>The loop stands in one \<^verbatim>\<open>try\<close> with the single clause
  \<^verbatim>\<open>except WebSocketDisconnect\<close>; any other exception leaves the coroutine.\<close>

definition newServer_twilio_to_openai ::
  "newServer_state \<Rightarrow> recv \<Rightarrow> exn option \<Rightarrow> newServer_state \<times> action list" where
  "newServer_twilio_to_openai st message send =
     (case newServer_twilio_body st message send of
        (st', acts, Continue) \<Rightarrow> (st', acts)
      | (st', acts, Break) \<Rightarrow> (st'\<lparr>twilio_task := Returned\<rparr>, acts)
      | (st', acts, Raise e) \<Rightarrow>
          if e = WebSocketDisconnect
          then (st'\<lparr>twilio_task := Returned\<rparr>, acts @ [Print ''Twilio disconnected'' []])
          else (st'\<lparr>twilio_task := Raised e\<rparr>, acts))"

subsection \<open>\<^verbatim>\<open>openai_to_twilio\<close>\<close>

text \<open>The branch for \<^verbatim>\<open>conversation.item.input_audio_transcription.completed\<close>.\<close>

definition newServer_on_user_transcript ::
  "newServer_state \<Rightarrow> json \<Rightarrow> exn option \<Rightarrow> newServer_state \<times> action list \<times> outcome" where
  "newServer_on_user_transcript st event send =
     (case get_default event ''transcript'' (JStr []) of
        Inl e \<Rightarrow> (st, [], Raise e)
      | Inr user_text \<Rightarrow>
         if \<not> extraction_done st \<and> conversation_turns st + 1 > 15 then
           (case send of
              Some e \<Rightarrow>
                (st\<lparr>conversation_turns := conversation_turns st + 1, extraction_done := True\<rparr>,
                 [Print ''User'' [user_text],
                  Print ''Auto-triggering extraction after 15+ turns'' []],
                 Raise e)
            | None \<Rightarrow>
                (st\<lparr>conversation_turns := conversation_turns st + 1, extraction_done := True\<rparr>,
                 [Print ''User'' [user_text],
                  Print ''Auto-triggering extraction after 15+ turns'' [],
                  SendOpenAI extraction_prompt],
                 Continue))
         else
           (st\<lparr>conversation_turns := conversation_turns st + 1\<rparr>,
            [Print ''User'' [user_text]], Continue))"

text \<open>The branch for \<^verbatim>\<open>response.audio_transcript.done\<close>. When \<^verbatim>\<open>extraction_done\<close>
  is set, \<^verbatim>\<open>and\<close> does not evaluate the phrase test.\<close>

definition newServer_on_audio_transcript ::
  "newServer_state \<Rightarrow> json \<Rightarrow> exn option \<Rightarrow> newServer_state \<times> action list \<times> outcome" where
  "newServer_on_audio_transcript st event send =
     (case get_default event ''transcript'' (JStr []) of
        Inl e \<Rightarrow> (st, [], Raise e)
      | Inr text \<Rightarrow>
         if extraction_done st then (st, [Print ''AI'' [text]], Continue)
         else
           (case lower_method text of
              Inl e \<Rightarrow> (st, [Print ''AI'' [text]], Raise e)
            | Inr lowered \<Rightarrow>
               if any_phrase_in closing_phrases lowered then
                 (case send of
                    Some e \<Rightarrow>
                      (st\<lparr>extraction_done := True\<rparr>,
                       [Print ''AI'' [text], Print ''Triggering data extraction'' []],
                       Raise e)
                  | None \<Rightarrow>
                      (st\<lparr>extraction_done := True\<rparr>,
                       [Print ''AI'' [text], Print ''Triggering data extraction'' [],
                        SendOpenAI extraction_prompt],
                       Continue))
               else (st, [Print ''AI'' [text]], Continue)))"

text \<open>The branch for \<^verbatim>\<open>response.output_text.done\<close>.\<close>

definition newServer_on_output_text_done ::
  "newServer_state \<Rightarrow> json \<Rightarrow> newServer_state \<times> action list \<times> outcome" where
  "newServer_on_output_text_done st event =
     (case get_default event ''text'' (JStr []) of
        Inl e \<Rightarrow> (st, [], Raise e)
      | Inr extracted_text \<Rightarrow>
         if extraction_done st \<and> truthy extracted_text then
           (st,
            [Print ''EXTRACTION RESPONSE'' [extracted_text],
             report_extraction (extract_candidate extracted_text)],
            Continue)
         else (st, [], Continue))"

definition newServer_openai_body ::
  "newServer_state \<Rightarrow> recv \<Rightarrow> exn option \<Rightarrow> newServer_state \<times> action list \<times> outcome" where
  "newServer_openai_body st message send =
     (case message of
        Raises e \<Rightarrow> (st, [], Raise e)
      | Msg event \<Rightarrow>
         (case get_default event ''type'' JNull of
            Inl e \<Rightarrow> (st, [], Raise e)
          | Inr etype \<Rightarrow>
             if etype = JStr ''response.audio.delta'' \<and> truthy (stream_sid st) then
               (case subscript event ''delta'' of
                  Inl e \<Rightarrow> (st, [], Raise e)
                | Inr delta \<Rightarrow>
                   (case send of
                      Some e \<Rightarrow> (st, [], Raise e)
                    | None \<Rightarrow>
                       (st, [SendTwilio (media_message (stream_sid st) delta)], Continue)))
             else if etype = JStr ''conversation.item.input_audio_transcription.completed'' then
               newServer_on_user_transcript st event send
             else if etype = JStr ''response.audio_transcript.done'' then
               newServer_on_audio_transcript st event send
             else if etype = JStr ''response.output_text.done'' then
               newServer_on_output_text_done st event
             else if etype = JStr ''response.text.done'' then
               (case get_default event ''text'' (JStr []) of
                  Inl e \<Rightarrow> (st, [], Raise e)
                | Inr text_content \<Rightarrow>
                   if extraction_done st \<and> truthy text_content
                   then (st, [Print ''TEXT EXTRACTION'' [text_content]], Continue)
                   else (st, [], Continue))
             else (st, [], Continue)))"

text \<open>The loop has no \<^verbatim>\<open>break\<close> and no \<^verbatim>\<open>try\<close>: it ends only by an exception,
  which leaves the coroutine.\<close>

definition newServer_openai_to_twilio ::
  "newServer_state \<Rightarrow> recv \<Rightarrow> exn option \<Rightarrow> newServer_state \<times> action list" where
  "newServer_openai_to_twilio st message send =
     (case newServer_openai_body st message send of
        (st', acts, Continue) \<Rightarrow> (st', acts)
      | (st', acts, Break) \<Rightarrow> (st'\<lparr>openai_task := Returned\<rparr>, acts)
      | (st', acts, Raise e) \<Rightarrow> (st'\<lparr>openai_task := Raised e\<rparr>, acts))"

subsection \<open>\<^verbatim>\<open>media_stream\<close>\<close>

text \<open>
  \<^verbatim>\<open>await asyncio.gather(twilio_to_openai(), openai_to_twilio())\<close> is the last statement
  of \<^verbatim>\<open>media_stream\<close>, outside any \<^verbatim>\<open>try\<close>: it returns once both tasks have returned,
  and raises the first exception a task raises, without cancelling the other task.
  Nothing in \<^verbatim>\<open>newServer.py\<close> closes the AI connection.
\<close>

definition newServer_step :: "newServer_state \<Rightarrow> input \<Rightarrow> newServer_state \<times> action list" where
  "newServer_step st i =
     (case i of
        FromTwilio message send \<Rightarrow>
          if twilio_task st = Running then newServer_twilio_to_openai st message send
          else (st, [])
      | FromOpenAI message send \<Rightarrow>
          if openai_task st = Running then newServer_openai_to_twilio st message send
          else (st, []))"

definition newServer_gather :: "newServer_state \<Rightarrow> newServer_state" where
  "newServer_gather st =
     (if media_stream_status st \<noteq> Running then st
      else
        (case twilio_task st of
           Raised e \<Rightarrow> st\<lparr>media_stream_status := Raised e\<rparr>
         | Running \<Rightarrow>
             (case openai_task st of
                Raised e \<Rightarrow> st\<lparr>media_stream_status := Raised e\<rparr>
              | _ \<Rightarrow> st)
         | Returned \<Rightarrow>
             (case openai_task st of
                Raised e \<Rightarrow> st\<lparr>media_stream_status := Raised e\<rparr>
              | Returned \<Rightarrow> st\<lparr>media_stream_status := Returned\<rparr>
              | Running \<Rightarrow> st)))"

fun newServer_run :: "newServer_state \<Rightarrow> input list \<Rightarrow> newServer_state \<times> action list" where
  "newServer_run st [] = (st, [])"
| "newServer_run st (i # inputs) =
     (case newServer_step st i of
        (st', acts) \<Rightarrow>
          (case newServer_run (newServer_gather st') inputs of
             (st'', acts') \<Rightarrow> (st'', acts @ acts')))"

definition newServer_initial :: newServer_state where
  "newServer_initial =
     \<lparr>stream_sid = JNull, twilio_task = Running, openai_task = Running,
      extraction_done = False, conversation_turns = 0, media_stream_status = Running\<rparr>"

text \<open>The start of \<^verbatim>\<open>media_stream\<close>; an exception of the connection or of one of the
  two sends leaves \<^verbatim>\<open>media_stream\<close> before the tasks exist.\<close>

definition newServer_startup :: "startup_env \<Rightarrow> newServer_state option \<times> action list" where
  "newServer_startup env =
     (if api_key env = None \<or> api_key env = Some []
      then (None,
            [Print ''Twilio WebSocket connected'' [],
             CloseTwilio 1008 ''Missing OpenAI API key''])
      else
        (case connect env of
           Some e \<Rightarrow> (None, [Print ''Twilio WebSocket connected'' []])
         | None \<Rightarrow>
            (case config_send env of
               Some e \<Rightarrow> (None, [Print ''Twilio WebSocket connected'' []])
             | None \<Rightarrow>
                (case greeting_send env of
                   Some e \<Rightarrow>
                     (None,
                      [Print ''Twilio WebSocket connected'' [],
                       SendOpenAI newServer_session_config])
                 | None \<Rightarrow>
                     (Some newServer_initial,
                      [Print ''Twilio WebSocket connected'' [],
                       SendOpenAI newServer_session_config,
                       SendOpenAI newServer_greeting_message])))))"

definition newServer_media_stream ::
  "startup_env \<Rightarrow> input list \<Rightarrow> newServer_state option \<times> action list" where
  "newServer_media_stream env inputs =
     (case newServer_startup env of
        (None, acts) \<Rightarrow> (None, acts)
      | (Some st, acts) \<Rightarrow>
          (case newServer_run st inputs of (st', acts') \<Rightarrow> (Some st', acts @ acts')))"

section \<open>Notions the statements use\<close>


definition from_twilio :: "input \<Rightarrow> bool" where
  "from_twilio i = (case i of FromTwilio message send \<Rightarrow> True | _ \<Rightarrow> False)"




text \<open>The greeting the system instructions mandate: the line that follows
  \<^verbatim>\<open>Say exactly:\<close>, without the quotation marks around it.\<close>

fun line_after :: "string \<Rightarrow> string list \<Rightarrow> string option" where
  "line_after k [] = None"
| "line_after k [l] = None"
| "line_after k (l # m # ls) = (if l = k then Some m else line_after k (m # ls))"

definition unquote :: "string \<Rightarrow> string" where
  "unquote s =
     (if 2 \<le> length s \<and> hd s = CHR 0x22 \<and> last s = CHR 0x22 then butlast (tl s) else s)"

definition mandated_greeting :: "string option" where
  "mandated_greeting = map_option unquote (line_after ''Say exactly:'' SYSTEM_INSTRUCTIONS_lines)"

section \<open>Properties of the two servers\<close>

lemma sent_openai_append: "sent_openai (xs @ ys) = sent_openai xs @ sent_openai ys"
  by (induction xs) (auto split: action.splits)


lemma final_extraction_neq:
  "audio_message p \<noteq> final_extraction" "commit_message \<noteq> final_extraction"
  "server_session_config \<noteq> final_extraction" "server_greeting_message \<noteq> final_extraction"
  by (simp_all add: audio_message_def commit_message_def final_extraction_def response_create_def
      server_session_config_def server_greeting_message_def)

lemma extraction_prompt_neq:
  "audio_message p \<noteq> extraction_prompt" "commit_message \<noteq> extraction_prompt"
  "newServer_session_config \<noteq> extraction_prompt" "newServer_greeting_message \<noteq> extraction_prompt"
  by (simp_all add: audio_message_def commit_message_def extraction_prompt_def response_create_def
      newServer_session_config_def newServer_greeting_message_def)

subsection \<open>\<^verbatim>\<open>server.py\<close>: the extraction requests of a step and of a run\<close>

lemma server_twilio_no_extraction:
  "server_twilio_to_openai st m s = (st', acts) \<Longrightarrow>
     count_list (sent_openai acts) final_extraction = 0 \<and>
     extraction_requested st' = extraction_requested st"
  by (auto simp: server_twilio_to_openai_def server_twilio_body_def sent_openai_append
      final_extraction_neq split: recv.splits sum.splits if_splits option.splits)

lemma server_on_audio_transcript_extraction:
  "server_on_audio_transcript st r s = (st', acts, out) \<Longrightarrow>
     count_list (sent_openai acts) final_extraction \<le> (if extraction_requested st then 0 else 1) \<and>
     (extraction_requested st \<or> 1 \<le> count_list (sent_openai acts) final_extraction
        \<longrightarrow> extraction_requested st')"
  by (auto simp: server_on_audio_transcript_def split: sum.splits if_splits option.splits)

lemma server_on_audio_delta_plain:
  "server_on_audio_delta st r s = (st', acts, out) \<Longrightarrow> st' = st \<and> sent_openai acts = []"
  by (auto simp: server_on_audio_delta_def split: sum.splits if_splits option.splits)

lemma server_openai_body_extraction:
  assumes b: "server_openai_body st m s = (st', acts, out)"
  shows "count_list (sent_openai acts) final_extraction \<le> (if extraction_requested st then 0 else 1) \<and>
     (extraction_requested st \<or> 1 \<le> count_list (sent_openai acts) final_extraction
        \<longrightarrow> extraction_requested st')"
proof (cases m)
  case (Raises e)
  then show ?thesis using b by (auto simp: server_openai_body_def)
next
  case (Msg response)
  show ?thesis
  proof (cases "subscript response ''type''")
    case (Inl e)
    then show ?thesis using b Msg by (auto simp: server_openai_body_def)
  next
    case (Inr ty)
    consider (tr) "ty = JStr ''response.audio_transcript.done''"
      | (de) "ty = JStr ''response.audio.delta''"
      | (other) "ty \<noteq> JStr ''response.audio_transcript.done''" "ty \<noteq> JStr ''response.audio.delta''"
      by blast
    then show ?thesis
    proof cases
      case tr
      then have "server_on_audio_transcript st response s = (st', acts, out)"
        using b Msg Inr by (simp add: server_openai_body_def)
      then show ?thesis by (rule server_on_audio_transcript_extraction)
    next
      case de
      then have "server_on_audio_delta st response s = (st', acts, out)"
        using b Msg Inr by (simp add: server_openai_body_def)
      then show ?thesis using server_on_audio_delta_plain by fastforce
    next
      case other
      have "st' = st \<and> sent_openai acts = []"
        using b Msg Inr other
        by (auto simp: server_openai_body_def split: if_split_asm sum.split_asm)
      then show ?thesis by simp
    qed
  qed
qed

lemma server_openai_extraction:
  assumes "server_openai_to_twilio st m s = (st', acts)"
  shows "count_list (sent_openai acts) final_extraction \<le> (if extraction_requested st then 0 else 1) \<and>
     (extraction_requested st \<or> 1 \<le> count_list (sent_openai acts) final_extraction
        \<longrightarrow> extraction_requested st')"
proof -
  obtain st1 a1 out where b: "server_openai_body st m s = (st1, a1, out)"
    by (cases "server_openai_body st m s") auto
  note e = server_openai_body_extraction[OF b]
  show ?thesis
    using assms e
    by (cases out) (auto simp: server_openai_to_twilio_def b sent_openai_append)
qed

lemma server_step_extraction:
  assumes "server_finally (server_step st i) = (st', acts)"
  shows "count_list (sent_openai acts) final_extraction \<le> (if extraction_requested st then 0 else 1) \<and>
     (extraction_requested st \<or> 1 \<le> count_list (sent_openai acts) final_extraction
        \<longrightarrow> extraction_requested st')"
proof -
  obtain st1 a1 where s: "server_step st i = (st1, a1)" by (cases "server_step st i") auto
  have 1: "count_list (sent_openai a1) final_extraction \<le> (if extraction_requested st then 0 else 1) \<and>
     (extraction_requested st \<or> 1 \<le> count_list (sent_openai a1) final_extraction
        \<longrightarrow> extraction_requested st1)"
  proof (cases i)
    case (FromTwilio m sd)
    then show ?thesis using s server_twilio_no_extraction[of st m sd st1 a1]
      by (auto simp: server_step_def split: if_splits)
  next
    case (FromOpenAI m sd)
    then show ?thesis using s server_openai_extraction[of st m sd st1 a1]
      by (auto simp: server_step_def split: if_splits)
  qed
  have 2: "extraction_requested st' = extraction_requested st1 \<and> sent_openai acts = sent_openai a1"
    using assms s by (auto simp: server_finally_def sent_openai_append split: if_splits)
  show ?thesis using 1 2 by simp
qed

lemma server_run_extraction:
  "count_list (sent_openai (snd (server_run st inputs))) final_extraction
     \<le> (if extraction_requested st then 0 else 1)"
proof (induction inputs arbitrary: st)
  case Nil
  then show ?case by simp
next
  case (Cons i inputs)
  obtain st1 a1 where s: "server_finally (server_step st i) = (st1, a1)"
    by (cases "server_finally (server_step st i)") auto
  obtain st2 a2 where r: "server_run st1 inputs = (st2, a2)"
    by (cases "server_run st1 inputs") auto
  from Cons.IH[of st1] r have ih:
    "count_list (sent_openai a2) final_extraction \<le> (if extraction_requested st1 then 0 else 1)"
    by simp
  from server_step_extraction[OF s] ih show ?case
    by (auto simp: s r sent_openai_append split: if_splits)
qed

subsection \<open>\<^verbatim>\<open>newServer.py\<close>: the extraction requests of a step and of a run\<close>

lemma newServer_twilio_no_extraction:
  "newServer_twilio_to_openai st m s = (st', acts) \<Longrightarrow>
     count_list (sent_openai acts) extraction_prompt = 0 \<and>
     extraction_done st' = extraction_done st \<and>
     conversation_turns st' = conversation_turns st \<and>
     openai_task st' = openai_task st"
  by (auto simp: newServer_twilio_to_openai_def newServer_twilio_body_def sent_openai_append
      extraction_prompt_neq split: recv.splits sum.splits if_splits option.splits)

lemma newServer_on_user_transcript_extraction:
  "newServer_on_user_transcript st r s = (st', acts, out) \<Longrightarrow>
     count_list (sent_openai acts) extraction_prompt \<le> (if extraction_done st then 0 else 1) \<and>
     (extraction_done st \<or> 1 \<le> count_list (sent_openai acts) extraction_prompt
        \<longrightarrow> extraction_done st')"
  by (auto simp: newServer_on_user_transcript_def split: sum.splits if_splits option.splits)

lemma newServer_on_audio_transcript_extraction:
  "newServer_on_audio_transcript st r s = (st', acts, out) \<Longrightarrow>
     count_list (sent_openai acts) extraction_prompt \<le> (if extraction_done st then 0 else 1) \<and>
     (extraction_done st \<or> 1 \<le> count_list (sent_openai acts) extraction_prompt
        \<longrightarrow> extraction_done st')"
  by (auto simp: newServer_on_audio_transcript_def split: sum.splits if_splits option.splits)

lemma newServer_on_output_text_done_plain:
  "newServer_on_output_text_done st r = (st', acts, out) \<Longrightarrow>
     sent_openai acts = [] \<and> sent_twilio acts = [] \<and> st' = st"
  by (auto simp: newServer_on_output_text_done_def report_extraction_def
      split: sum.splits if_splits extraction_result.splits)

lemma newServer_openai_body_extraction:
  "newServer_openai_body st m s = (st', acts, out) \<Longrightarrow>
     count_list (sent_openai acts) extraction_prompt \<le> (if extraction_done st then 0 else 1) \<and>
     (extraction_done st \<or> 1 \<le> count_list (sent_openai acts) extraction_prompt
        \<longrightarrow> extraction_done st')"
  apply (cases m)
   apply (simp add: newServer_openai_body_def)
  apply (simp add: newServer_openai_body_def split: sum.splits if_splits option.splits)
  apply (auto dest: newServer_on_audio_transcript_extraction
      newServer_on_user_transcript_extraction newServer_on_output_text_done_plain)
  done

lemma newServer_openai_extraction:
  assumes "newServer_openai_to_twilio st m s = (st', acts)"
  shows "count_list (sent_openai acts) extraction_prompt \<le> (if extraction_done st then 0 else 1) \<and>
     (extraction_done st \<or> 1 \<le> count_list (sent_openai acts) extraction_prompt
        \<longrightarrow> extraction_done st')"
proof -
  obtain st1 a1 out where b: "newServer_openai_body st m s = (st1, a1, out)"
    by (cases "newServer_openai_body st m s") auto
  note e = newServer_openai_body_extraction[OF b]
  show ?thesis
    using assms e
    by (cases out) (auto simp: newServer_openai_to_twilio_def b sent_openai_append)
qed

lemma newServer_gather_fields:
  "extraction_done (newServer_gather st) = extraction_done st"
  "conversation_turns (newServer_gather st) = conversation_turns st"
  "openai_task (newServer_gather st) = openai_task st"
  "twilio_task (newServer_gather st) = twilio_task st"
  "stream_sid (newServer_gather st) = stream_sid st"
  by (auto simp: newServer_gather_def split: task_status.splits)

lemma newServer_step_extraction:
  assumes "newServer_step st i = (st', acts)"
  shows "count_list (sent_openai acts) extraction_prompt \<le> (if extraction_done st then 0 else 1) \<and>
     (extraction_done st \<or> 1 \<le> count_list (sent_openai acts) extraction_prompt
        \<longrightarrow> extraction_done st')"
proof (cases i)
  case (FromTwilio m sd)
  then show ?thesis using assms newServer_twilio_no_extraction[of st m sd st' acts]
    by (auto simp: newServer_step_def split: if_splits)
next
  case (FromOpenAI m sd)
  then show ?thesis using assms newServer_openai_extraction[of st m sd st' acts]
    by (auto simp: newServer_step_def split: if_splits)
qed

lemma newServer_run_extraction:
  "count_list (sent_openai (snd (newServer_run st inputs))) extraction_prompt
     \<le> (if extraction_done st then 0 else 1)"
proof (induction inputs arbitrary: st)
  case Nil
  then show ?case by simp
next
  case (Cons i inputs)
  obtain st1 a1 where s: "newServer_step st i = (st1, a1)"
    by (cases "newServer_step st i") auto
  obtain st2 a2 where r: "newServer_run (newServer_gather st1) inputs = (st2, a2)"
    by (cases "newServer_run (newServer_gather st1) inputs") auto
  from Cons.IH[of "newServer_gather st1"] r have ih:
    "count_list (sent_openai a2) extraction_prompt \<le> (if extraction_done st1 then 0 else 1)"
    by (simp add: newServer_gather_fields)
  from newServer_step_extraction[OF s] ih show ?case
    by (auto simp: s r sent_openai_append split: if_splits)
qed

lemma server_startup_no_extraction:
  "count_list (sent_openai (snd (server_startup env))) final_extraction = 0"
  by (simp add: server_startup_def final_extraction_neq split: option.splits)

lemma newServer_startup_no_extraction:
  "count_list (sent_openai (snd (newServer_startup env))) extraction_prompt = 0"
  by (simp add: newServer_startup_def extraction_prompt_neq split: option.splits)

lemma server_startup_initial:
  "server_startup env = (Some st, acts) \<Longrightarrow> st = server_initial"
  by (auto simp: server_startup_def split: if_splits option.splits)

lemma newServer_startup_initial:
  "newServer_startup env = (Some st, acts) \<Longrightarrow> st = newServer_initial"
  by (auto simp: newServer_startup_def split: if_splits option.splits)

subsection \<open>At most one extraction request\<close>

text \<open>
  Claim C1. In a session of either server, whatever the two connections deliver and
  whichever sends fail, the messages sent into the AI connection hold the extraction
  request (\<^verbatim>\<open>final_extraction\<close> in \<^verbatim>\<open>server.py\<close>, \<^verbatim>\<open>extraction_prompt()\<close> in
  \<^verbatim>\<open>newServer.py\<close>) at most once.
\<close>

theorem at_most_one_extraction_request:
  "count_list (sent_openai (snd (server_media_stream env inputs))) final_extraction \<le> 1 \<and>
   count_list (sent_openai (snd (newServer_media_stream env' inputs'))) extraction_prompt \<le> 1"
proof
  obtain s0 a0 where st: "server_startup env = (s0, a0)" by (cases "server_startup env") auto
  have a0: "count_list (sent_openai a0) final_extraction = 0"
    using server_startup_no_extraction[of env] st by simp
  show "count_list (sent_openai (snd (server_media_stream env inputs))) final_extraction \<le> 1"
  proof (cases s0)
    case None
    then show ?thesis using st a0 by (simp add: server_media_stream_def)
  next
    case (Some s)
    have "count_list (sent_openai (snd (server_run s inputs))) final_extraction \<le> 1"
      using server_run_extraction[of s inputs] by (simp split: if_splits)
    then show ?thesis using st a0 Some
      by (auto simp: server_media_stream_def sent_openai_append split: prod.splits)
  qed
next
  obtain s0 a0 where st: "newServer_startup env' = (s0, a0)"
    by (cases "newServer_startup env'") auto
  have a0: "count_list (sent_openai a0) extraction_prompt = 0"
    using newServer_startup_no_extraction[of env'] st by simp
  show "count_list (sent_openai (snd (newServer_media_stream env' inputs'))) extraction_prompt \<le> 1"
  proof (cases s0)
    case None
    then show ?thesis using st a0 by (simp add: newServer_media_stream_def)
  next
    case (Some s)
    have "count_list (sent_openai (snd (newServer_run s inputs'))) extraction_prompt \<le> 1"
      using newServer_run_extraction[of s inputs'] by (simp split: if_splits)
    then show ?thesis using st a0 Some
      by (auto simp: newServer_media_stream_def sent_openai_append split: prod.splits)
  qed
qed

theorem at_most_one_extraction_request_witness:
  "count_list
     (sent_openai (snd (server_media_stream
        \<lparr>api_key = Some ''sk'', connect = None, config_send = None, greeting_send = None\<rparr>
        [FromOpenAI (Msg (JObj [(''type'', JStr ''response.audio_transcript.done''),
                                (''transcript'', JStr ''Thank you for your time.'')])) None,
         FromOpenAI (Msg (JObj [(''type'', JStr ''response.audio_transcript.done''),
                                (''transcript'', JStr ''Your interview is complete.'')])) None])))
     final_extraction \<le> 1 \<and>
   count_list
     (sent_openai (snd (newServer_media_stream
        \<lparr>api_key = Some ''sk'', connect = None, config_send = None, greeting_send = None\<rparr>
        [FromOpenAI (Msg (JObj [(''type'', JStr ''response.audio_transcript.done''),
                                (''transcript'', JStr ''Take care and goodbye.'')])) None,
         FromOpenAI (Msg (JObj [(''type'', JStr ''response.audio_transcript.done''),
                                (''transcript'', JStr ''Goodbye.'')])) None])))
     extraction_prompt \<le> 1"
  by (rule at_most_one_extraction_request)

subsection \<open>What a step of either side leaves alone\<close>









subsection \<open>Audio in the two directions\<close>











subsection \<open>The closing phrases\<close>








subsection \<open>The flag is set before the send\<close>



subsection \<open>The turn-count fallback of \<^verbatim>\<open>newServer.py\<close>\<close>










subsection \<open>Malformed frames\<close>

lemma subscript_raises: "subscript d k = Inl e \<Longrightarrow> e = KeyError \<or> e = TypeError"
  by (cases d) (auto split: option.splits)

lemma subscript_twice_raises:
  "bind_exn (subscript d k) (\<lambda>x. subscript x k') = Inl e \<Longrightarrow> e = KeyError \<or> e = TypeError"
  by (cases "subscript d k") (auto dest: subscript_raises)

text \<open>
  Claim C4, as amended. A frame that lacks \<^verbatim>\<open>event\<close>, a \<^verbatim>\<open>start\<close> frame that lacks
  \<^verbatim>\<open>start.streamSid\<close> and a \<^verbatim>\<open>media\<close> frame that lacks \<^verbatim>\<open>media.payload\<close> end the
  receiver: \<^verbatim>\<open>server.py\<close> prints the error and leaves its loop, so the task returns;
  \<^verbatim>\<open>newServer.py\<close> prints nothing and the exception ends the task. The frame changes
  nothing else, and no later frame is received. A \<^verbatim>\<open>stop\<close> frame ends the loop as
  well, after the commit.
\<close>

theorem malformed_frame_ends_receiver:
  assumes "subscript data ''event'' = Inl e \<or>
           (subscript data ''event'' = Inr (JStr ''start'') \<and>
            bind_exn (subscript data ''start'') (\<lambda>s. subscript s ''streamSid'') = Inl e) \<or>
           (subscript data ''event'' = Inr (JStr ''media'') \<and>
            bind_exn (subscript data ''media'') (\<lambda>m. subscript m ''payload'') = Inl e)"
    and "twilio_task st = Running" and "twilio_task nst = Running"
    and "subscript stop ''event'' = Inr (JStr ''stop'')"
  shows "server_step st (FromTwilio (Msg data) send) =
           (st\<lparr>twilio_task := Returned\<rparr>, [PrintExn ''Error receiving from Twilio'' e]) \<and>
         newServer_step nst (FromTwilio (Msg data) send) = (nst\<lparr>twilio_task := Raised e\<rparr>, []) \<and>
         server_step (st\<lparr>twilio_task := Returned\<rparr>) (FromTwilio later send') =
           (st\<lparr>twilio_task := Returned\<rparr>, []) \<and>
         newServer_step (nst\<lparr>twilio_task := Raised e\<rparr>) (FromTwilio later send') =
           (nst\<lparr>twilio_task := Raised e\<rparr>, []) \<and>
         server_step st (FromTwilio (Msg stop) None) =
           (st\<lparr>twilio_task := Returned\<rparr>,
            [Print ''Stream stopped by Twilio'' [], SendOpenAI commit_message]) \<and>
         newServer_step nst (FromTwilio (Msg stop) None) =
           (nst\<lparr>twilio_task := Returned\<rparr>, [SendOpenAI commit_message])"
proof -
  have e: "e \<noteq> WebSocketDisconnect"
    using assms(1) subscript_raises subscript_twice_raises by fastforce
  have a: "server_twilio_body st (Msg data) send = (st, [], Raise e)"
    using assms(1) by (auto simp: server_twilio_body_def)
  have b: "newServer_twilio_body nst (Msg data) send = (nst, [], Raise e)"
    using assms(1) by (auto simp: newServer_twilio_body_def)
  have 1: "server_step st (FromTwilio (Msg data) send) =
           (st\<lparr>twilio_task := Returned\<rparr>, [PrintExn ''Error receiving from Twilio'' e])"
    using a e assms(2) by (simp add: server_step_def server_twilio_to_openai_def)
  have 2: "newServer_step nst (FromTwilio (Msg data) send) = (nst\<lparr>twilio_task := Raised e\<rparr>, [])"
    using b e assms(3) by (simp add: newServer_step_def newServer_twilio_to_openai_def)
  have 3: "server_step (st\<lparr>twilio_task := Returned\<rparr>) (FromTwilio later send') =
           (st\<lparr>twilio_task := Returned\<rparr>, [])"
    by (simp add: server_step_def)
  have 4: "newServer_step (nst\<lparr>twilio_task := Raised e\<rparr>) (FromTwilio later send') =
           (nst\<lparr>twilio_task := Raised e\<rparr>, [])"
    by (simp add: newServer_step_def)
  have 5: "server_step st (FromTwilio (Msg stop) None) =
           (st\<lparr>twilio_task := Returned\<rparr>,
            [Print ''Stream stopped by Twilio'' [], SendOpenAI commit_message])"
    using assms(2,4) by (simp add: server_step_def server_twilio_to_openai_def server_twilio_body_def)
  have 6: "newServer_step nst (FromTwilio (Msg stop) None) =
           (nst\<lparr>twilio_task := Returned\<rparr>, [SendOpenAI commit_message])"
    using assms(3,4)
    by (simp add: newServer_step_def newServer_twilio_to_openai_def newServer_twilio_body_def)
  show ?thesis using 1 2 3 4 5 6 by blast
qed

theorem malformed_frame_ends_receiver_witness:
  "server_step server_initial (FromTwilio (Msg (JObj [(''event'', JStr ''media'')])) None) =
     (server_initial\<lparr>twilio_task := Returned\<rparr>,
      [PrintExn ''Error receiving from Twilio'' KeyError]) \<and>
   newServer_step newServer_initial (FromTwilio (Msg (JObj [(''event'', JStr ''media'')])) None) =
     (newServer_initial\<lparr>twilio_task := Raised KeyError\<rparr>, []) \<and>
   server_step server_initial (FromTwilio (Msg (JObj [(''event'', JStr ''stop'')])) None) =
     (server_initial\<lparr>twilio_task := Returned\<rparr>,
      [Print ''Stream stopped by Twilio'' [], SendOpenAI commit_message])"
proof -
  let ?d = "JObj [(''event'', JStr ''media'')]"
  have h1: "subscript ?d ''event'' = Inl KeyError \<or>
           (subscript ?d ''event'' = Inr (JStr ''start'') \<and>
            bind_exn (subscript ?d ''start'') (\<lambda>s. subscript s ''streamSid'') = Inl KeyError) \<or>
           (subscript ?d ''event'' = Inr (JStr ''media'') \<and>
            bind_exn (subscript ?d ''media'') (\<lambda>m. subscript m ''payload'') = Inl KeyError)"
    by simp
  have h2: "twilio_task server_initial = Running" by (simp add: server_initial_def)
  have h3: "twilio_task newServer_initial = Running" by (simp add: newServer_initial_def)
  have h4: "subscript (JObj [(''event'', JStr ''stop'')]) ''event'' = Inr (JStr ''stop'')" by simp
  from malformed_frame_ends_receiver[OF h1 h2 h3 h4, of None] show ?thesis by blast
qed

theorem malformed_frame_not_skipped_counterexample:
  "server_run server_initial
     [FromTwilio (Msg (JObj [(''type'', JStr ''media'')])) None,
      FromTwilio (Msg (JObj [(''event'', JStr ''media''),
                             (''media'', JObj [(''payload'', JStr ''BBBB'')])])) None] =
     (server_initial\<lparr>twilio_task := Returned\<rparr>,
      [PrintExn ''Error receiving from Twilio'' KeyError]) \<and>
   newServer_run newServer_initial
     [FromTwilio (Msg (JObj [(''type'', JStr ''media'')])) None,
      FromTwilio (Msg (JObj [(''event'', JStr ''media''),
                             (''media'', JObj [(''payload'', JStr ''BBBB'')])])) None] =
     (newServer_initial\<lparr>twilio_task := Raised KeyError,
                         media_stream_status := Raised KeyError\<rparr>, [])"
  by (simp add: server_initial_def newServer_initial_def server_step_def newServer_step_def
      server_twilio_to_openai_def newServer_twilio_to_openai_def server_twilio_body_def
      newServer_twilio_body_def server_finally_def newServer_gather_def)

subsection \<open>The two commands at the start of a session\<close>

lemma mandated_greeting_value: "mandated_greeting = Some newServer_greeting_instructions"
  by (simp add: mandated_greeting_def SYSTEM_INSTRUCTIONS_lines_def unquote_def
      newServer_greeting_instructions_def)

text \<open>
  Claim C6. With the API key configured, the connection made and both sends delivered,
  each server sends exactly two messages into the AI connection before its tasks start:
  its session configuration (codec \<^verbatim>\<open>g711_ulaw\<close>, voice \<^verbatim>\<open>alloy\<close>, transcription model
  \<^verbatim>\<open>whisper-1\<close>, server VAD with threshold 0.5, 300 ms prefix padding and 700 ms silence)
  and then a \<^verbatim>\<open>response.create\<close>. In \<^verbatim>\<open>newServer.py\<close> its instructions are the
  greeting the system instructions mandate; in \<^verbatim>\<open>server.py\<close> they are not: they name
  AIRA where the mandated line names SAVIRA.
\<close>

theorem startup_commands_and_greeting:
  "sent_openai (snd (server_startup
      \<lparr>api_key = Some ''sk'', connect = None, config_send = None, greeting_send = None\<rparr>)) =
     [server_session_config,
      response_create [JStr ''text'', JStr ''audio''] server_greeting_instructions] \<and>
   sent_openai (snd (newServer_startup
      \<lparr>api_key = Some ''sk'', connect = None, config_send = None, greeting_send = None\<rparr>)) =
     [newServer_session_config,
      response_create [JStr ''text'', JStr ''audio''] newServer_greeting_instructions] \<and>
   bind_exn (subscript server_session_config ''session'') (\<lambda>s. subscript s ''turn_detection'') =
     Inr (JObj [(''type'', JStr ''server_vad''), (''threshold'', JFloat ''0.5''),
                (''prefix_padding_ms'', JInt 300), (''silence_duration_ms'', JInt 700)]) \<and>
   bind_exn (subscript newServer_session_config ''session'') (\<lambda>s. subscript s ''turn_detection'') =
     Inr (JObj [(''type'', JStr ''server_vad''), (''threshold'', JFloat ''0.5''),
                (''prefix_padding_ms'', JInt 300), (''silence_duration_ms'', JInt 700)]) \<and>
   mandated_greeting = Some newServer_greeting_instructions \<and>
   mandated_greeting \<noteq> Some server_greeting_instructions"
  by (simp add: mandated_greeting_value server_startup_def newServer_startup_def
      server_greeting_message_def newServer_greeting_message_def
      server_session_config_def newServer_session_config_def turn_detection_def
      server_greeting_instructions_def newServer_greeting_instructions_def)

subsection \<open>The parser of the extraction response\<close>











end
